theory Spec2Isabelle
  imports Main
begin

section \<open>Neo4j vector search helpers: data model\<close>

text \<open>
  The module \<^verbatim>\<open>graphiti_core/search/neo4j_vector_search.py\<close> builds pairs of a query
  text and a parameter mapping, and keeps a per-target fallback flag.

  Python's \<^verbatim>\<open>list[str] | None\<close> is \<open>string list option\<close>; a \<^verbatim>\<open>dict[str, Any]\<close> is a
  map from names to values. The values this module stores are a string
  (\<^verbatim>\<open>group_id\<close>, \<^verbatim>\<open>source_uuid\<close>, \<^verbatim>\<open>target_uuid\<close>) or a list of strings
  (\<^verbatim>\<open>group_ids\<close>); whatever the filter constructor stores is \<open>PAny\<close>.
\<close>

datatype 'a param_value = PStr string | PStrList "string list" | PAny 'a

type_synonym 'a params = "string \<rightharpoonup> 'a param_value"

text \<open>
  \<^verbatim>\<open>GraphProvider\<close> is imported from the driver module; this module only ever passes
  its member \<^verbatim>\<open>NEO4J\<close>.
\<close>

datatype GraphProvider = NEO4J

subsection \<open>Fallback-mode tracker\<close>

text \<open>
  A target is any object (the source types it \<^verbatim>\<open>Any\<close>); the tracker reads two attributes
  on it with \<^verbatim>\<open>getattr\<close> (with a default) and writes them with \<^verbatim>\<open>setattr\<close>. An object
  is its attribute map, where an attribute that was never set is absent, together with
  the attribute names it lets be set: a plain \<^verbatim>\<open>object()\<close>, an instance of a class with
  \<^verbatim>\<open>__slots__\<close> or a frozen instance takes no new attribute, and \<^verbatim>\<open>setattr\<close> on it
  raises \<^verbatim>\<open>AttributeError\<close>.
\<close>

datatype attr_value = AStr string | ABool bool

datatype py_error = AttributeError

record target =
  attrs :: "string \<rightharpoonup> attr_value"
  settable :: "string \<Rightarrow> bool"

definition VECTOR_SEARCH_MODE_ATTR :: string where
  "VECTOR_SEARCH_MODE_ATTR = ''_neo4j_vector_search_mode''"

definition VECTOR_SEARCH_FALLBACK_LOGGED_ATTR :: string where
  "VECTOR_SEARCH_FALLBACK_LOGGED_ATTR = ''_neo4j_vector_search_fallback_logged''"

definition getattr :: "target \<Rightarrow> string \<Rightarrow> attr_value \<Rightarrow> attr_value" where
  "getattr t name dflt = (case attrs t name of None \<Rightarrow> dflt | Some v \<Rightarrow> v)"

definition setattr :: "target \<Rightarrow> string \<Rightarrow> attr_value \<Rightarrow> py_error + target" where
  "setattr t name v =
     (if settable t name then Inr (t\<lparr>attrs := (attrs t)(name \<mapsto> v)\<rparr>)
      else Inl AttributeError)"

text \<open>Python's truth value of an attribute: \<^verbatim>\<open>not x\<close> is the negation of this.\<close>

fun truthy :: "attr_value \<Rightarrow> bool" where
  "truthy (ABool b) = b"
| "truthy (AStr s) = (s \<noteq> [])"

definition should_use_search_index :: "target \<Rightarrow> bool" where
  "should_use_search_index t =
     (getattr t VECTOR_SEARCH_MODE_ATTR (AStr ''search'') \<noteq> AStr ''fallback'')"

text \<open>
  The logger is the list of warnings emitted so far, oldest first; a warning is its
  format string and its argument, the exception.

  \<^verbatim>\<open>mark_search_index_fallback\<close> returns nothing or raises what \<^verbatim>\<open>setattr\<close> raises. The
  result is \<open>Inr ()\<close> or \<open>Inl\<close> the error, together with the target and the log as the
  call leaves them: a warning logged before a failing \<^verbatim>\<open>setattr\<close> stays logged, and an
  attribute written before it stays written.
\<close>

datatype 'e log_record = Warning string 'e

definition mark_search_index_fallback ::
  "target \<Rightarrow> 'e \<Rightarrow> 'e log_record list \<Rightarrow> (py_error + unit) \<times> target \<times> 'e log_record list" where
  "mark_search_index_fallback t exc logger =
     (if \<not> truthy (getattr t VECTOR_SEARCH_FALLBACK_LOGGED_ATTR (ABool False)) then
        (let logger1 =
               logger @ [Warning ''Neo4j SEARCH INDEX unavailable, falling back: %s'' exc]
         in case setattr t VECTOR_SEARCH_FALLBACK_LOGGED_ATTR (ABool True) of
              Inl e \<Rightarrow> (Inl e, t, logger1)
            | Inr t1 \<Rightarrow>
                (case setattr t1 VECTOR_SEARCH_MODE_ATTR (AStr ''fallback'') of
                   Inl e \<Rightarrow> (Inl e, t1, logger1)
                 | Inr t2 \<Rightarrow> (Inr (), t2, logger1)))
      else
        (case setattr t VECTOR_SEARCH_MODE_ATTR (AStr ''fallback'') of
           Inl e \<Rightarrow> (Inl e, t, logger)
         | Inr t2 \<Rightarrow> (Inr (), t2, logger)))"

text \<open>
  Any number of calls in a row, each with its own exception, by a caller that goes on
  after a call that raised.
\<close>

fun mark_all :: "target \<times> 'e log_record list \<Rightarrow> 'e list \<Rightarrow> target \<times> 'e log_record list" where
  "mark_all s [] = s"
| "mark_all s (exc # excs) = mark_all (snd (mark_search_index_fallback (fst s) exc (snd s))) excs"

text \<open>A fresh target has neither of the two attributes.\<close>

definition fresh :: "target \<Rightarrow> bool" where
  "fresh t \<longleftrightarrow>
     attrs t VECTOR_SEARCH_MODE_ATTR = None \<and> attrs t VECTOR_SEARCH_FALLBACK_LOGGED_ATTR = None"

text \<open>
  A degraded target: the mode attribute holds \<^verbatim>\<open>'fallback'\<close>, the warning has been
  logged, and the mode attribute can be written again.
\<close>

definition degraded :: "target \<Rightarrow> bool" where
  "degraded t \<longleftrightarrow>
     attrs t VECTOR_SEARCH_MODE_ATTR = Some (AStr ''fallback'')
     \<and> attrs t VECTOR_SEARCH_FALLBACK_LOGGED_ATTR = Some (ABool True)
     \<and> settable t VECTOR_SEARCH_MODE_ATTR"

text \<open>
  Two example targets without attributes: one that takes no new attribute, as
  \<^verbatim>\<open>object()\<close> does, and one that takes any.
\<close>

definition plain_object :: target where
  "plain_object = \<lparr>attrs = Map.empty, settable = (\<lambda>name. False)\<rparr>"

definition open_object :: target where
  "open_object = \<lparr>attrs = Map.empty, settable = (\<lambda>name. True)\<rparr>"

subsection \<open>Group-scope splitter\<close>

text \<open>
  \<^verbatim>\<open>if group_ids and len(group_ids) == 1\<close>: \<^verbatim>\<open>None\<close> and the empty list are both
  false, so the first test only lets a non-empty list through.
\<close>

definition split_group_ids :: "string list option \<Rightarrow> string option \<times> string list option" where
  "split_group_ids group_ids =
     (case group_ids of
        Some (g # gs) \<Rightarrow> (if length (g # gs) = 1 then (Some g, None) else (None, group_ids))
      | _ \<Rightarrow> (None, group_ids))"

subsection \<open>External collaborators\<close>

text \<open>
  The index names, the return projections and the two filter constructors are imported
  from other modules. They are taken as given: a record holds one value for each
  imported name, and every assembler reads the ones it uses from it. A filter
  constructor returns a list of predicate fragments and a parameter mapping; the type
  \<open>'f\<close> stands for \<^verbatim>\<open>SearchFilters\<close>.
\<close>

record ('f, 'a) collaborators =
  NEO4J_ENTITY_VECTOR_INDEX :: string
  NEO4J_COMMUNITY_VECTOR_INDEX :: string
  NEO4J_EDGE_VECTOR_INDEX :: string
  get_entity_node_return_query :: "GraphProvider \<Rightarrow> string"
  COMMUNITY_NODE_RETURN :: string
  get_entity_edge_return_query :: "GraphProvider \<Rightarrow> string"
  node_search_filter_query_constructor :: "'f \<Rightarrow> GraphProvider \<Rightarrow> string list \<times> 'a params"
  edge_search_filter_query_constructor :: "'f \<Rightarrow> GraphProvider \<Rightarrow> string list \<times> 'a params"

subsection \<open>Query assemblers\<close>

text \<open>Python's \<^verbatim>\<open>sep.join(xs)\<close>.\<close>

fun join :: "string \<Rightarrow> string list \<Rightarrow> string" where
  "join sep [] = []"
| "join sep [x] = x"
| "join sep (x # y # ys) = x @ sep @ join sep (y # ys)"

text \<open>
  The expression each assembler assigns to \<^verbatim>\<open>query\<close>, as a function of the two local
  variables it reads besides the imported names.
\<close>

definition node_query :: "('f, 'a) collaborators \<Rightarrow> string \<Rightarrow> string \<Rightarrow> string" where
  "node_query env search_where score_filter =
     ''\<newline>        MATCH (n:Entity)\<newline>        SEARCH n IN (\<newline>            VECTOR INDEX ''
     @ NEO4J_ENTITY_VECTOR_INDEX env
     @ ''\<newline>            FOR $search_vector''
     @ search_where
     @ ''\<newline>            LIMIT $limit\<newline>        ) SCORE AS score\<newline>        ''
     @ score_filter
     @ ''\<newline>        RETURN\<newline>        ''
     @ get_entity_node_return_query env NEO4J
     @ ''\<newline>        ORDER BY score DESC\<newline>        LIMIT $limit\<newline>        ''"

definition community_query :: "('f, 'a) collaborators \<Rightarrow> string \<Rightarrow> string \<Rightarrow> string" where
  "community_query env search_where score_filter =
     ''\<newline>        MATCH (c:Community)\<newline>        SEARCH c IN (\<newline>            VECTOR INDEX ''
     @ NEO4J_COMMUNITY_VECTOR_INDEX env
     @ ''\<newline>            FOR $search_vector''
     @ search_where
     @ ''\<newline>            LIMIT $limit\<newline>        ) SCORE AS score\<newline>        ''
     @ score_filter
     @ ''\<newline>        RETURN\<newline>        ''
     @ COMMUNITY_NODE_RETURN env
     @ ''\<newline>        ORDER BY score DESC\<newline>        LIMIT $limit\<newline>        ''"

definition edge_query :: "('f, 'a) collaborators \<Rightarrow> string \<Rightarrow> string \<Rightarrow> string" where
  "edge_query env search_where score_filter =
     ''\<newline>        MATCH ()-[e:RELATES_TO]-()\<newline>        SEARCH e IN (\<newline>            VECTOR INDEX ''
     @ NEO4J_EDGE_VECTOR_INDEX env
     @ ''\<newline>            FOR $search_vector''
     @ search_where
     @ ''\<newline>            LIMIT $limit\<newline>        ) SCORE AS score\<newline>        WITH e, score\<newline>        MATCH (n:Entity)-[e:RELATES_TO]->(m:Entity)\<newline>        ''
     @ score_filter
     @ ''\<newline>        RETURN\<newline>        ''
     @ get_entity_edge_return_query env NEO4J
     @ ''\<newline>        ORDER BY score DESC\<newline>        LIMIT $limit\<newline>        ''"

text \<open>
  Each assembler follows its source line by line: \<^verbatim>\<open>append\<close> on the fragment list is
  \<open>@\<close> with a singleton, a dictionary store is a map update, and
  \<^verbatim>\<open>{**search_params, **filter_params}\<close> is \<open>search_params ++ filter_params\<close>, where the
  right operand wins on a shared key.
\<close>

definition build_node_vector_search_query ::
  "('f, 'a) collaborators \<Rightarrow> 'f \<Rightarrow> string list option \<Rightarrow> string \<times> 'a params" where
  "build_node_vector_search_query env search_filter group_ids =
     (let (search_group_id, post_group_ids) = split_group_ids group_ids;
          (filter_queries0, filter_params0) =
             node_search_filter_query_constructor env search_filter NEO4J;
          (filter_queries, filter_params) =
             (case post_group_ids of
                Some ids \<Rightarrow> (filter_queries0 @ [''n.group_id IN $group_ids''],
                             filter_params0(''group_ids'' \<mapsto> PStrList ids))
              | None \<Rightarrow> (filter_queries0, filter_params0));
          filter_query =
             (if filter_queries \<noteq> [] then '' WHERE '' @ join '' AND '' filter_queries else []);
          score_filter =
             (if filter_query \<noteq> [] then filter_query @ '' AND score > $min_score''
              else '' WHERE score > $min_score'');
          (search_where, search_params) =
             (case search_group_id of
                Some g \<Rightarrow> ('' WHERE n.group_id = $group_id'', [''group_id'' \<mapsto> PStr g])
              | None \<Rightarrow> ([], Map.empty));
          query = node_query env search_where score_filter;
          params = search_params ++ filter_params
      in (query, params))"

definition build_community_vector_search_query ::
  "('f, 'a) collaborators \<Rightarrow> string list option \<Rightarrow> string \<times> 'a params" where
  "build_community_vector_search_query env group_ids =
     (let (search_group_id, post_group_ids) = split_group_ids group_ids;
          (filter_query, filter_params) =
             (case post_group_ids of
                Some ids \<Rightarrow> ('' WHERE c.group_id IN $group_ids'',
                             [''group_ids'' \<mapsto> PStrList ids])
              | None \<Rightarrow> ([], Map.empty));
          score_filter =
             (if filter_query \<noteq> [] then filter_query @ '' AND score > $min_score''
              else '' WHERE score > $min_score'');
          (search_where, search_params) =
             (case search_group_id of
                Some g \<Rightarrow> ('' WHERE c.group_id = $group_id'', [''group_id'' \<mapsto> PStr g])
              | None \<Rightarrow> ([], Map.empty));
          query = community_query env search_where score_filter;
          params = search_params ++ filter_params
      in (query, params))"

definition build_edge_vector_search_query ::
  "('f, 'a) collaborators \<Rightarrow> 'f \<Rightarrow> string list option \<Rightarrow> string option \<Rightarrow> string option
     \<Rightarrow> string \<times> 'a params" where
  "build_edge_vector_search_query env search_filter group_ids source_node_uuid target_node_uuid =
     (let (search_group_id, post_group_ids) = split_group_ids group_ids;
          (filter_queries0, filter_params0) =
             edge_search_filter_query_constructor env search_filter NEO4J;
          (filter_queries1, filter_params1) =
             (case post_group_ids of
                Some ids \<Rightarrow> (filter_queries0 @ [''e.group_id IN $group_ids''],
                             filter_params0(''group_ids'' \<mapsto> PStrList ids))
              | None \<Rightarrow> (filter_queries0, filter_params0));
          (filter_queries2, filter_params2) =
             (if group_ids \<noteq> None then
                (case source_node_uuid of
                   Some s \<Rightarrow> (filter_queries1 @ [''n.uuid = $source_uuid''],
                              filter_params1(''source_uuid'' \<mapsto> PStr s))
                 | None \<Rightarrow> (filter_queries1, filter_params1))
              else (filter_queries1, filter_params1));
          (filter_queries, filter_params) =
             (if group_ids \<noteq> None then
                (case target_node_uuid of
                   Some t \<Rightarrow> (filter_queries2 @ [''m.uuid = $target_uuid''],
                              filter_params2(''target_uuid'' \<mapsto> PStr t))
                 | None \<Rightarrow> (filter_queries2, filter_params2))
              else (filter_queries2, filter_params2));
          filter_query =
             (if filter_queries \<noteq> [] then '' WHERE '' @ join '' AND '' filter_queries else []);
          score_filter =
             (if filter_query \<noteq> [] then filter_query @ '' AND score > $min_score''
              else '' WHERE score > $min_score'');
          (search_where, search_params) =
             (case search_group_id of
                Some g \<Rightarrow> ('' WHERE e.group_id = $group_id'', [''group_id'' \<mapsto> PStr g])
              | None \<Rightarrow> ([], Map.empty));
          query = edge_query env search_where score_filter;
          params = search_params ++ filter_params
      in (query, params))"

subsection \<open>The assemblers on an object store\<close>

text \<open>
  The source does not build new lists and dictionaries: it appends to the list and
  stores into the dictionary that the filter constructor returned, in place, and it
  returns a dictionary object. Whether a second call sees what the first one did depends
  on which objects are shared, so here the objects live in a store: a list of objects, a
  reference being a position in it. A new object goes to the end of the store.
\<close>

datatype 'a obj = ListObj "string list" | DictObj "'a params"

type_synonym 'a store = "'a obj list"

type_synonym ref = nat

definition new_obj :: "'a obj \<Rightarrow> 'a store \<Rightarrow> ref \<times> 'a store" where
  "new_obj ob h = (length h, h @ [ob])"

definition get_list :: "'a store \<Rightarrow> ref \<Rightarrow> string list" where
  "get_list h r =
     (if r < length h then (case h ! r of ListObj xs \<Rightarrow> xs | DictObj m \<Rightarrow> []) else [])"

definition get_dict :: "'a store \<Rightarrow> ref \<Rightarrow> 'a params" where
  "get_dict h r =
     (if r < length h then (case h ! r of DictObj m \<Rightarrow> m | ListObj xs \<Rightarrow> Map.empty)
      else Map.empty)"

text \<open>\<^verbatim>\<open>xs.append(x)\<close> and \<^verbatim>\<open>d[k] = v\<close> on the objects behind the references.\<close>

definition list_append :: "ref \<Rightarrow> string \<Rightarrow> 'a store \<Rightarrow> 'a store" where
  "list_append r x h = h[r := ListObj (get_list h r @ [x])]"

definition dict_store :: "ref \<Rightarrow> string \<Rightarrow> 'a param_value \<Rightarrow> 'a store \<Rightarrow> 'a store" where
  "dict_store r k v h = h[r := DictObj ((get_dict h r)(k \<mapsto> v))]"

text \<open>
  A call of a filter constructor, taken as a deterministic function that builds its
  result anew: the call puts a new list and a new dictionary holding the constructor's
  value into the store and returns their references.
\<close>

definition call_constructor ::
  "('f \<Rightarrow> GraphProvider \<Rightarrow> string list \<times> 'a params) \<Rightarrow> 'f \<Rightarrow> GraphProvider \<Rightarrow> 'a store
     \<Rightarrow> (ref \<times> ref) \<times> 'a store" where
  "call_constructor constructor search_filter provider h =
     (let (fragments, bindings) = constructor search_filter provider;
          (r1, h1) = new_obj (ListObj fragments) h;
          (r2, h2) = new_obj (DictObj bindings) h1
      in ((r1, r2), h2))"

text \<open>
  The three assemblers, statement by statement. \<open>filter_queries\<close> and \<open>filter_params\<close>
  are references; the dictionaries \<open>search_params\<close> and, for communities,
  \<open>filter_params\<close> are created by the assembler and used by it alone, and stay values.
  The returned \<open>params\<close> is a new dictionary object.
\<close>

definition build_node_vector_search_query_st ::
  "('f, 'a) collaborators \<Rightarrow> 'f \<Rightarrow> string list option \<Rightarrow> 'a store
     \<Rightarrow> (string \<times> ref) \<times> 'a store" where
  "build_node_vector_search_query_st env search_filter group_ids h =
     (let (search_group_id, post_group_ids) = split_group_ids group_ids;
          ((filter_queries, filter_params), h1) =
             call_constructor (node_search_filter_query_constructor env) search_filter NEO4J h;
          h2 = (case post_group_ids of
                  Some ids \<Rightarrow>
                    dict_store filter_params ''group_ids'' (PStrList ids)
                      (list_append filter_queries ''n.group_id IN $group_ids'' h1)
                | None \<Rightarrow> h1);
          filter_query =
             (if get_list h2 filter_queries \<noteq> []
              then '' WHERE '' @ join '' AND '' (get_list h2 filter_queries) else []);
          score_filter =
             (if filter_query \<noteq> [] then filter_query @ '' AND score > $min_score''
              else '' WHERE score > $min_score'');
          (search_where, search_params) =
             (case search_group_id of
                Some g \<Rightarrow> ('' WHERE n.group_id = $group_id'', [''group_id'' \<mapsto> PStr g])
              | None \<Rightarrow> ([], Map.empty));
          query = node_query env search_where score_filter;
          (params, h3) = new_obj (DictObj (search_params ++ get_dict h2 filter_params)) h2
      in ((query, params), h3))"

definition build_community_vector_search_query_st ::
  "('f, 'a) collaborators \<Rightarrow> string list option \<Rightarrow> 'a store \<Rightarrow> (string \<times> ref) \<times> 'a store" where
  "build_community_vector_search_query_st env group_ids h =
     (let (search_group_id, post_group_ids) = split_group_ids group_ids;
          (filter_query, filter_params) =
             (case post_group_ids of
                Some ids \<Rightarrow> ('' WHERE c.group_id IN $group_ids'',
                             [''group_ids'' \<mapsto> PStrList ids])
              | None \<Rightarrow> ([], Map.empty));
          score_filter =
             (if filter_query \<noteq> [] then filter_query @ '' AND score > $min_score''
              else '' WHERE score > $min_score'');
          (search_where, search_params) =
             (case search_group_id of
                Some g \<Rightarrow> ('' WHERE c.group_id = $group_id'', [''group_id'' \<mapsto> PStr g])
              | None \<Rightarrow> ([], Map.empty));
          query = community_query env search_where score_filter;
          (params, h1) = new_obj (DictObj (search_params ++ filter_params)) h
      in ((query, params), h1))"

definition build_edge_vector_search_query_st ::
  "('f, 'a) collaborators \<Rightarrow> 'f \<Rightarrow> string list option \<Rightarrow> string option \<Rightarrow> string option
     \<Rightarrow> 'a store \<Rightarrow> (string \<times> ref) \<times> 'a store" where
  "build_edge_vector_search_query_st env search_filter group_ids source_node_uuid
       target_node_uuid h =
     (let (search_group_id, post_group_ids) = split_group_ids group_ids;
          ((filter_queries, filter_params), h1) =
             call_constructor (edge_search_filter_query_constructor env) search_filter NEO4J h;
          h2 = (case post_group_ids of
                  Some ids \<Rightarrow>
                    dict_store filter_params ''group_ids'' (PStrList ids)
                      (list_append filter_queries ''e.group_id IN $group_ids'' h1)
                | None \<Rightarrow> h1);
          h3 = (if group_ids \<noteq> None then
                  (case source_node_uuid of
                     Some s \<Rightarrow>
                       list_append filter_queries ''n.uuid = $source_uuid''
                         (dict_store filter_params ''source_uuid'' (PStr s) h2)
                   | None \<Rightarrow> h2)
                else h2);
          h4 = (if group_ids \<noteq> None then
                  (case target_node_uuid of
                     Some t \<Rightarrow>
                       list_append filter_queries ''m.uuid = $target_uuid''
                         (dict_store filter_params ''target_uuid'' (PStr t) h3)
                   | None \<Rightarrow> h3)
                else h3);
          filter_query =
             (if get_list h4 filter_queries \<noteq> []
              then '' WHERE '' @ join '' AND '' (get_list h4 filter_queries) else []);
          score_filter =
             (if filter_query \<noteq> [] then filter_query @ '' AND score > $min_score''
              else '' WHERE score > $min_score'');
          (search_where, search_params) =
             (case search_group_id of
                Some g \<Rightarrow> ('' WHERE e.group_id = $group_id'', [''group_id'' \<mapsto> PStr g])
              | None \<Rightarrow> ([], Map.empty));
          query = edge_query env search_where score_filter;
          (params, h5) = new_obj (DictObj (search_params ++ get_dict h4 filter_params)) h4
      in ((query, params), h5))"

subsection \<open>The assembled query, clause by clause\<close>

text \<open>
  The algorithm of the three assemblers as the specification words it: the query is a
  fixed sequence of clauses, one per line, and the parameter mapping is the merge of the
  index-scope binding with the post-filter bindings. These definitions follow the
  specification, not the source; the assemblers above are shown to compute them.
\<close>

datatype entity_kind = NodeKind | CommunityKind | EdgeKind

fun entity_var :: "entity_kind \<Rightarrow> string" where
  "entity_var NodeKind = ''n''"
| "entity_var CommunityKind = ''c''"
| "entity_var EdgeKind = ''e''"

fun match_clause :: "entity_kind \<Rightarrow> string" where
  "match_clause NodeKind = ''MATCH (n:Entity)''"
| "match_clause CommunityKind = ''MATCH (c:Community)''"
| "match_clause EdgeKind = ''MATCH ()-[e:RELATES_TO]-()''"

text \<open>Step 6: the index-scope clause, present when there is a single scope identifier.\<close>

definition index_scope_clause :: "entity_kind \<Rightarrow> string option \<Rightarrow> string" where
  "index_scope_clause k single_id =
     (case single_id of
        Some g \<Rightarrow> '' WHERE '' @ entity_var k @ ''.group_id = $group_id''
      | None \<Rightarrow> [])"

definition index_scope_bindings :: "string option \<Rightarrow> 'a params" where
  "index_scope_bindings single_id =
     (case single_id of Some g \<Rightarrow> [''group_id'' \<mapsto> PStr g] | None \<Rightarrow> Map.empty)"

text \<open>Step 3: the membership post-filter, present when there are post-filter identifiers.\<close>

definition scope_predicates :: "entity_kind \<Rightarrow> string list option \<Rightarrow> string list" where
  "scope_predicates k post_ids =
     (case post_ids of
        Some ids \<Rightarrow> [entity_var k @ ''.group_id IN $group_ids'']
      | None \<Rightarrow> [])"

definition scope_bindings :: "string list option \<Rightarrow> 'a params" where
  "scope_bindings post_ids =
     (case post_ids of Some ids \<Rightarrow> [''group_ids'' \<mapsto> PStrList ids] | None \<Rightarrow> Map.empty)"

text \<open>Step 4, edges only: the endpoint predicates, gated on the scope argument.\<close>

definition source_predicates :: "string option \<Rightarrow> string list" where
  "source_predicates source_node_uuid =
     (case source_node_uuid of Some s \<Rightarrow> [''n.uuid = $source_uuid''] | None \<Rightarrow> [])"

definition target_predicates :: "string option \<Rightarrow> string list" where
  "target_predicates target_node_uuid =
     (case target_node_uuid of Some t \<Rightarrow> [''m.uuid = $target_uuid''] | None \<Rightarrow> [])"

definition endpoint_predicates ::
  "string list option \<Rightarrow> string option \<Rightarrow> string option \<Rightarrow> string list" where
  "endpoint_predicates group_ids source_node_uuid target_node_uuid =
     (if group_ids \<noteq> None
      then source_predicates source_node_uuid @ target_predicates target_node_uuid
      else [])"

definition source_bindings :: "string option \<Rightarrow> 'a params" where
  "source_bindings source_node_uuid =
     (case source_node_uuid of Some s \<Rightarrow> [''source_uuid'' \<mapsto> PStr s] | None \<Rightarrow> Map.empty)"

definition target_bindings :: "string option \<Rightarrow> 'a params" where
  "target_bindings target_node_uuid =
     (case target_node_uuid of Some t \<Rightarrow> [''target_uuid'' \<mapsto> PStr t] | None \<Rightarrow> Map.empty)"

definition endpoint_bindings ::
  "string list option \<Rightarrow> string option \<Rightarrow> string option \<Rightarrow> 'a params" where
  "endpoint_bindings group_ids source_node_uuid target_node_uuid =
     (if group_ids \<noteq> None
      then source_bindings source_node_uuid ++ target_bindings target_node_uuid
      else Map.empty)"

text \<open>Step 5: the post-filter clause, the predicates and the score threshold joined by AND.\<close>

definition post_filter_clause :: "string list \<Rightarrow> string" where
  "post_filter_clause predicates =
     '' WHERE '' @ join '' AND '' (predicates @ [''score > $min_score''])"

text \<open>Step 7: the clauses in their fixed order, each on a line of its own.\<close>

definition vector_lookup_clause :: "entity_kind \<Rightarrow> string \<Rightarrow> string \<Rightarrow> string" where
  "vector_lookup_clause k index_name scope_clause =
     ''SEARCH '' @ entity_var k @ '' IN (\<newline>            VECTOR INDEX '' @ index_name
     @ ''\<newline>            FOR $search_vector'' @ scope_clause
     @ ''\<newline>            LIMIT $limit\<newline>        ) SCORE AS score''"

fun rematch_clauses :: "entity_kind \<Rightarrow> string list" where
  "rematch_clauses EdgeKind = [''WITH e, score'', ''MATCH (n:Entity)-[e:RELATES_TO]->(m:Entity)'']"
| "rematch_clauses NodeKind = []"
| "rematch_clauses CommunityKind = []"

definition return_clause :: "string \<Rightarrow> string" where
  "return_clause projection = ''RETURN\<newline>        '' @ projection"

definition clause_lines :: "string list \<Rightarrow> string" where
  "clause_lines clauses =
     concat (map (\<lambda>c. ''\<newline>        '' @ c) clauses) @ ''\<newline>        ''"

definition ordered_query_text ::
  "entity_kind \<Rightarrow> string \<Rightarrow> string option \<Rightarrow> string list \<Rightarrow> string \<Rightarrow> string" where
  "ordered_query_text k index_name single_id predicates projection =
     clause_lines
       ([match_clause k, vector_lookup_clause k index_name (index_scope_clause k single_id)]
        @ rematch_clauses k
        @ [post_filter_clause predicates, return_clause projection,
           ''ORDER BY score DESC'', ''LIMIT $limit''])"

subsection \<open>Placeholders of a query text\<close>

text \<open>
  A placeholder is a \<^verbatim>\<open>$\<close> followed by a non-empty run of letters, digits and
  underscores; \<open>placeholders\<close> lists the names in a text, in order of occurrence.
\<close>

definition is_ident_char :: "char \<Rightarrow> bool" where
  "is_ident_char c =
     (let n = (of_char c :: nat)
      in (48 \<le> n \<and> n \<le> 57) \<or> (65 \<le> n \<and> n \<le> 90) \<or> (97 \<le> n \<and> n \<le> 122) \<or> n = 95)"

fun placeholders :: "string \<Rightarrow> string list" where
  "placeholders [] = []"
| "placeholders (c # cs) =
     (if c = CHR ''$'' \<and> takeWhile is_ident_char cs \<noteq> []
      then takeWhile is_ident_char cs # placeholders cs
      else placeholders cs)"

subsection \<open>Example collaborators\<close>

text \<open>
  One concrete choice of the imported names, for evaluating the assemblers at concrete
  inputs. The example filter is an optional name: no name gives no fragment and no
  binding, a name gives one equality fragment and its binding.
\<close>

definition example_filter_constructor ::
  "string \<Rightarrow> string option \<Rightarrow> GraphProvider \<Rightarrow> string list \<times> string params" where
  "example_filter_constructor v search_filter provider =
     (case search_filter of
        None \<Rightarrow> ([], Map.empty)
      | Some name \<Rightarrow> ([v @ ''.name = $name''], [''name'' \<mapsto> PAny name]))"

definition example_env :: "(string option, string) collaborators" where
  "example_env =
     \<lparr> NEO4J_ENTITY_VECTOR_INDEX = ''entity_embedding_index'',
       NEO4J_COMMUNITY_VECTOR_INDEX = ''community_embedding_index'',
       NEO4J_EDGE_VECTOR_INDEX = ''edge_embedding_index'',
       get_entity_node_return_query = (\<lambda>provider. ''n.uuid AS uuid, n.name AS name''),
       COMMUNITY_NODE_RETURN = ''c.uuid AS uuid, c.name AS name'',
       get_entity_edge_return_query = (\<lambda>provider. ''e.uuid AS uuid, n.uuid AS source_node_uuid''),
       node_search_filter_query_constructor = example_filter_constructor ''n'',
       edge_search_filter_query_constructor = example_filter_constructor ''e'' \<rparr>"

section \<open>Properties\<close>

subsection \<open>Fallback-mode tracker\<close>

lemma attrs_distinct: "VECTOR_SEARCH_MODE_ATTR \<noteq> VECTOR_SEARCH_FALLBACK_LOGGED_ATTR"
  by (simp add: VECTOR_SEARCH_MODE_ATTR_def VECTOR_SEARCH_FALLBACK_LOGGED_ATTR_def)

lemma mark_fresh:
  assumes "fresh t" "settable t VECTOR_SEARCH_MODE_ATTR"
    "settable t VECTOR_SEARCH_FALLBACK_LOGGED_ATTR"
  shows "mark_search_index_fallback t exc logger =
     (Inr (),
      t\<lparr>attrs := (attrs t)(VECTOR_SEARCH_FALLBACK_LOGGED_ATTR \<mapsto> ABool True,
                             VECTOR_SEARCH_MODE_ATTR \<mapsto> AStr ''fallback'')\<rparr>,
      logger @ [Warning ''Neo4j SEARCH INDEX unavailable, falling back: %s'' exc])"
  using assms
  by (simp add: fresh_def mark_search_index_fallback_def getattr_def setattr_def)

lemma mark_fresh_degraded:
  assumes "fresh t" "settable t VECTOR_SEARCH_MODE_ATTR"
    "settable t VECTOR_SEARCH_FALLBACK_LOGGED_ATTR"
  shows "degraded (fst (snd (mark_search_index_fallback t exc logger)))"
  using attrs_distinct assms(2) by (simp add: mark_fresh [OF assms] degraded_def)

lemma mark_degraded:
  "degraded t \<Longrightarrow> mark_search_index_fallback t exc logger = (Inr (), t, logger)"
  by (simp add: degraded_def mark_search_index_fallback_def getattr_def setattr_def
      fun_upd_idem)

lemma mark_all_degraded: "degraded t \<Longrightarrow> mark_all (t, logger) excs = (t, logger)"
  by (induction excs) (simp_all add: mark_degraded)

lemma degraded_not_use: "degraded t \<Longrightarrow> \<not> should_use_search_index t"
  by (simp add: degraded_def should_use_search_index_def getattr_def)

lemma fresh_use: "fresh t \<Longrightarrow> should_use_search_index t"
  by (simp add: fresh_def should_use_search_index_def getattr_def)

lemma mark_all_fresh:
  assumes "fresh t" "settable t VECTOR_SEARCH_MODE_ATTR"
    "settable t VECTOR_SEARCH_FALLBACK_LOGGED_ATTR"
  shows "mark_all (t, logger) (exc # excs) = snd (mark_search_index_fallback t exc logger)"
proof -
  obtain r t1 l1 where m: "mark_search_index_fallback t exc logger = (r, t1, l1)"
    by (cases "mark_search_index_fallback t exc logger")
  with mark_fresh_degraded [OF assms, of exc logger] have "degraded t1" by simp
  then show ?thesis using m by (simp add: mark_all_degraded)
qed

text \<open>
  Claim C5, as stated, fails on a fresh target that takes no new attribute: the first
  call logs the warning and then raises at the first \<^verbatim>\<open>setattr\<close>, so nothing is written;
  the target still reports the search index as usable, and the second call logs the
  warning again.
\<close>

theorem tracker_unsettable_target_counterexample:
  "fresh plain_object
   \<and> fst (mark_search_index_fallback plain_object ''e1'' []) = Inl AttributeError
   \<and> should_use_search_index (fst (mark_all (plain_object, []) [''e1'']))
   \<and> should_use_search_index (fst (mark_all (plain_object, []) [''e1'', ''e2'']))
   \<and> snd (mark_all (plain_object, []) [''e1'', ''e2'']) =
        [Warning ''Neo4j SEARCH INDEX unavailable, falling back: %s'' ''e1'',
         Warning ''Neo4j SEARCH INDEX unavailable, falling back: %s'' ''e2'']"
  by (simp add: fresh_def plain_object_def mark_search_index_fallback_def getattr_def
      setattr_def should_use_search_index_def)

text \<open>
  Claim C5, amended. On a fresh target on which the two tracker attributes can be set,
  \<^verbatim>\<open>should_use_search_index\<close> is true; after one or more calls of
  \<^verbatim>\<open>mark_search_index_fallback\<close> it is false, and the calls together have emitted exactly
  one warning, carrying the exception of the first call. For two calls in a row: both
  return without raising, the first appends the warning, the second leaves the log as it
  is, and the target is in fallback mode after each.
\<close>

theorem tracker_fresh_target:
  assumes "fresh t" "settable t VECTOR_SEARCH_MODE_ATTR"
    "settable t VECTOR_SEARCH_FALLBACK_LOGGED_ATTR"
  shows "should_use_search_index t
    \<and> \<not> should_use_search_index (fst (mark_all (t, logger) (exc # excs)))
    \<and> snd (mark_all (t, logger) (exc # excs)) =
          logger @ [Warning ''Neo4j SEARCH INDEX unavailable, falling back: %s'' exc]
    \<and> (case mark_search_index_fallback t e1 logger of (r1, t1, logger1) \<Rightarrow>
          case mark_search_index_fallback t1 e2 logger1 of (r2, t2, logger2) \<Rightarrow>
            r1 = Inr () \<and> r2 = Inr ()
          \<and> logger1 = logger @ [Warning ''Neo4j SEARCH INDEX unavailable, falling back: %s'' e1]
          \<and> logger2 = logger1
          \<and> \<not> should_use_search_index t1 \<and> \<not> should_use_search_index t2)"
proof (intro conjI)
  show "should_use_search_index t" using assms(1) by (rule fresh_use)
next
  show "\<not> should_use_search_index (fst (mark_all (t, logger) (exc # excs)))"
    using mark_fresh_degraded [OF assms, of exc logger]
    by (simp only: mark_all_fresh [OF assms] degraded_not_use not_False_eq_True)
next
  show "snd (mark_all (t, logger) (exc # excs)) =
      logger @ [Warning ''Neo4j SEARCH INDEX unavailable, falling back: %s'' exc]"
    by (simp only: mark_all_fresh [OF assms] mark_fresh [OF assms] snd_conv)
next
  let ?t1 = "fst (snd (mark_search_index_fallback t e1 logger))"
  have d: "degraded ?t1" using assms by (rule mark_fresh_degraded)
  show "case mark_search_index_fallback t e1 logger of (r1, t1, logger1) \<Rightarrow>
          case mark_search_index_fallback t1 e2 logger1 of (r2, t2, logger2) \<Rightarrow>
            r1 = Inr () \<and> r2 = Inr ()
          \<and> logger1 = logger @ [Warning ''Neo4j SEARCH INDEX unavailable, falling back: %s'' e1]
          \<and> logger2 = logger1
          \<and> \<not> should_use_search_index t1 \<and> \<not> should_use_search_index t2"
    using d degraded_not_use [OF d]
    by (simp add: mark_fresh [OF assms] mark_degraded split: prod.splits)
qed

theorem tracker_fresh_target_witness:
  "fresh open_object
   \<and> settable open_object VECTOR_SEARCH_MODE_ATTR
   \<and> settable open_object VECTOR_SEARCH_FALLBACK_LOGGED_ATTR
   \<and> should_use_search_index open_object
   \<and> \<not> should_use_search_index (fst (mark_all (open_object, []) [''e1'', ''e2'']))
   \<and> snd (mark_all (open_object, []) [''e1'', ''e2'']) =
        [Warning ''Neo4j SEARCH INDEX unavailable, falling back: %s'' ''e1'']"
proof -
  have f: "fresh open_object"
    and m: "settable open_object VECTOR_SEARCH_MODE_ATTR"
    and l: "settable open_object VECTOR_SEARCH_FALLBACK_LOGGED_ATTR"
    by (simp_all add: fresh_def open_object_def)
  show ?thesis
    using f m l tracker_fresh_target [OF f m l, of "[]" "''e1''" "[''e2'']" "''e1''" "''e2''"]
    by simp
qed

subsection \<open>Group-scope splitter\<close>

text \<open>
  Claim C1, as stated, fails on the empty list: the splitter hands the empty list back
  as the second component instead of \<^verbatim>\<open>None\<close>.
\<close>

theorem split_group_ids_empty_counterexample:
  "split_group_ids (Some []) \<noteq> (None, None)"
  by (simp add: split_group_ids_def)

text \<open>
  Claim C1, amended. The splitter returns \<open>(None, None)\<close> for an absent sequence,
  \<open>(None, Some [])\<close> for the empty sequence, \<open>(Some g, None)\<close> for a sequence of exactly
  one identifier \<open>g\<close>, and \<open>(None, Some gs)\<close> for a sequence \<open>gs\<close> of two or more.
\<close>

theorem split_group_ids_cases:
  "split_group_ids None = (None, None)
   \<and> split_group_ids (Some []) = (None, Some [])
   \<and> split_group_ids (Some [g]) = (Some g, None)
   \<and> (2 \<le> length gs \<longrightarrow> split_group_ids (Some gs) = (None, Some gs))"
  by (cases gs) (auto simp: split_group_ids_def split: list.splits)

theorem split_group_ids_cases_witness:
  "2 \<le> length [''a'', ''b''] \<and> split_group_ids (Some [''a'', ''b'']) = (None, Some [''a'', ''b''])"
  using split_group_ids_cases [of "''a''" "[''a'', ''b'']"] by simp

subsection \<open>The assemblers compute the clause-by-clause query\<close>

lemma join_snoc: "join sep (xs @ [y]) = (if xs = [] then y else join sep xs @ sep @ y)"
  by (induction sep xs rule: join.induct) auto

lemma post_filter_clause_eq:
  "post_filter_clause ps =
     (if ps \<noteq> [] then ('' WHERE '' @ join '' AND '' ps) @ '' AND score > $min_score''
      else '' WHERE score > $min_score'')"
  by (simp add: post_filter_clause_def join_snoc)

lemma split_group_ids_None: "split_group_ids None = (None, None)"
  by (simp add: split_group_ids_def)

lemma split_group_ids_Nil: "split_group_ids (Some []) = (None, Some [])"
  by (simp add: split_group_ids_def)

lemma split_group_ids_single: "split_group_ids (Some [g]) = (Some g, None)"
  by (simp add: split_group_ids_def)

lemma split_group_ids_many: "2 \<le> length gs \<Longrightarrow> split_group_ids (Some gs) = (None, Some gs)"
  by (cases gs) (auto simp: split_group_ids_def)

lemma node_refines:
  "build_node_vector_search_query env sf gids =
     (ordered_query_text NodeKind (NEO4J_ENTITY_VECTOR_INDEX env) (fst (split_group_ids gids))
        (fst (node_search_filter_query_constructor env sf NEO4J)
           @ scope_predicates NodeKind (snd (split_group_ids gids)))
        (get_entity_node_return_query env NEO4J),
      index_scope_bindings (fst (split_group_ids gids))
        ++ (snd (node_search_filter_query_constructor env sf NEO4J)
              ++ scope_bindings (snd (split_group_ids gids))))"
proof -
  obtain sg pg where sp: "split_group_ids gids = (sg, pg)"
    by (cases "split_group_ids gids")
  obtain fq fp where c: "node_search_filter_query_constructor env sf NEO4J = (fq, fp)"
    by (cases "node_search_filter_query_constructor env sf NEO4J")
  show ?thesis
    by (cases sg; cases pg)
       (simp_all add: build_node_vector_search_query_def node_query_def sp c ordered_query_text_def
          clause_lines_def vector_lookup_clause_def return_clause_def index_scope_clause_def
          post_filter_clause_eq scope_predicates_def scope_bindings_def
          index_scope_bindings_def)
qed

lemma community_refines:
  "build_community_vector_search_query env gids =
     (ordered_query_text CommunityKind (NEO4J_COMMUNITY_VECTOR_INDEX env)
        (fst (split_group_ids gids))
        (scope_predicates CommunityKind (snd (split_group_ids gids)))
        (COMMUNITY_NODE_RETURN env),
      index_scope_bindings (fst (split_group_ids gids))
        ++ scope_bindings (snd (split_group_ids gids)))"
proof -
  obtain sg pg where sp: "split_group_ids gids = (sg, pg)"
    by (cases "split_group_ids gids")
  show ?thesis
    by (cases sg; cases pg)
       (simp_all add: build_community_vector_search_query_def community_query_def sp ordered_query_text_def
          clause_lines_def vector_lookup_clause_def return_clause_def index_scope_clause_def
          post_filter_clause_eq scope_predicates_def scope_bindings_def
          index_scope_bindings_def)
qed

lemma edge_refines:
  "build_edge_vector_search_query env sf gids src tgt =
     (ordered_query_text EdgeKind (NEO4J_EDGE_VECTOR_INDEX env) (fst (split_group_ids gids))
        (fst (edge_search_filter_query_constructor env sf NEO4J)
           @ scope_predicates EdgeKind (snd (split_group_ids gids))
           @ endpoint_predicates gids src tgt)
        (get_entity_edge_return_query env NEO4J),
      index_scope_bindings (fst (split_group_ids gids))
        ++ (snd (edge_search_filter_query_constructor env sf NEO4J)
              ++ scope_bindings (snd (split_group_ids gids))
              ++ endpoint_bindings gids src tgt))"
proof -
  obtain fq fp where c: "edge_search_filter_query_constructor env sf NEO4J = (fq, fp)"
    by (cases "edge_search_filter_query_constructor env sf NEO4J")
  note defs = build_edge_vector_search_query_def edge_query_def c ordered_query_text_def
          clause_lines_def vector_lookup_clause_def return_clause_def index_scope_clause_def
          post_filter_clause_eq scope_predicates_def scope_bindings_def
          index_scope_bindings_def endpoint_predicates_def endpoint_bindings_def
          source_predicates_def target_predicates_def source_bindings_def
          target_bindings_def
  consider "gids = None" | "gids = Some []" | g where "gids = Some [g]"
    | gs where "gids = Some gs" "2 \<le> length gs"
    by (cases gids; cases "the gids"; cases "tl (the gids)") auto
  then show ?thesis
  proof cases
    case 1
    show ?thesis
      by (cases src; cases tgt) (simp_all add: 1 split_group_ids_None defs)
  next
    case 2
    show ?thesis
      by (cases src; cases tgt) (simp_all add: 2 split_group_ids_Nil defs)
  next
    case 3
    show ?thesis
      by (cases src; cases tgt) (simp_all add: 3 split_group_ids_single defs)
  next
    case 4
    show ?thesis
      by (cases src; cases tgt) (simp_all add: 4 split_group_ids_many defs)
  qed
qed

subsection \<open>Placeholders of the assembled query\<close>

lemma takeWhile_clean_start:
  "b = [] \<or> \<not> P (hd b) \<Longrightarrow> takeWhile P (a @ b) = takeWhile P a"
  by (induction a) (auto simp: takeWhile_eq_Nil_iff)

lemma placeholders_append_clean_start:
  "b = [] \<or> \<not> is_ident_char (hd b) \<Longrightarrow> placeholders (a @ b) = placeholders a @ placeholders b"
  by (induction a) (simp_all add: takeWhile_clean_start)

lemma placeholders_append_clean_end:
  "a \<noteq> [] \<Longrightarrow> \<not> is_ident_char (last a) \<Longrightarrow> last a \<noteq> CHR ''$''
     \<Longrightarrow> placeholders (a @ b) = placeholders a @ placeholders b"
proof (induction a)
  case Nil
  then show ?case by simp
next
  case (Cons c cs)
  show ?case
  proof (cases "cs = []")
    case True
    with Cons.prems show ?thesis by simp
  next
    case False
    with Cons.prems have l: "last cs \<in> set cs" "\<not> is_ident_char (last cs)" "last cs \<noteq> CHR ''$''"
      by simp_all
    then have "takeWhile is_ident_char (cs @ b) = takeWhile is_ident_char cs"
      by simp
    moreover have "placeholders (cs @ b) = placeholders cs @ placeholders b"
      using Cons.IH False l by simp
    ultimately show ?thesis by simp
  qed
qed

text \<open>A literal piece between two arbitrary texts, when it starts and ends cleanly.\<close>

lemma placeholders_between:
  assumes "lit \<noteq> []" "\<not> is_ident_char (hd lit)" "\<not> is_ident_char (last lit)" "last lit \<noteq> CHR ''$''"
  shows "placeholders (a @ lit @ b) = placeholders a @ placeholders lit @ placeholders b"
proof -
  have "placeholders (a @ (lit @ b)) = placeholders a @ placeholders (lit @ b)"
    using assms by (intro placeholders_append_clean_start) simp
  then show ?thesis using assms by (simp add: placeholders_append_clean_end)
qed

lemma placeholders_join:
  "placeholders (join '' AND '' ps) = concat (map placeholders ps)"
proof (induction "'' AND ''" ps rule: join.induct)
  case 1
  then show ?case by simp
next
  case (2 x)
  then show ?case by simp
next
  case (3 x y ys)
  have "placeholders (x @ '' AND '' @ join '' AND '' (y # ys)) =
      placeholders x @ placeholders '' AND '' @ placeholders (join '' AND '' (y # ys))"
    by (rule placeholders_between) (simp_all add: is_ident_char_def)
  then show ?case using 3 by simp
qed

lemma placeholders_post_filter_clause:
  "placeholders (post_filter_clause ps) = concat (map placeholders ps) @ [''min_score'']"
proof -
  have "placeholders ('' WHERE '' @ join '' AND '' (ps @ [''score > $min_score''])) =
      placeholders '' WHERE '' @ placeholders (join '' AND '' (ps @ [''score > $min_score'']))"
    by (rule placeholders_append_clean_end) (simp_all add: is_ident_char_def)
  moreover have "placeholders ''score > $min_score'' = [''min_score'']"
    by (simp add: is_ident_char_def)
  ultimately show ?thesis
    by (simp add: post_filter_clause_def placeholders_join)
qed

lemma placeholders_template:
  assumes l1: "l1 \<noteq> []" "\<not> is_ident_char (last l1)" "last l1 \<noteq> CHR ''$''"
    and l2: "l2 \<noteq> []" "\<not> is_ident_char (hd l2)"
    and sc: "sc = [] \<or> \<not> is_ident_char (hd sc)"
    and l3: "l3 \<noteq> []" "\<not> is_ident_char (hd l3)" "\<not> is_ident_char (last l3)" "last l3 \<noteq> CHR ''$''"
    and l4: "l4 \<noteq> []" "\<not> is_ident_char (hd l4)" "\<not> is_ident_char (last l4)" "last l4 \<noteq> CHR ''$''"
    and l5: "l5 \<noteq> []" "\<not> is_ident_char (hd l5)"
  shows "placeholders (l1 @ idx @ l2 @ sc @ l3 @ pf @ l4 @ proj @ l5) =
     placeholders l1 @ placeholders idx @ placeholders l2 @ placeholders sc @ placeholders l3
       @ placeholders pf @ placeholders l4 @ placeholders proj @ placeholders l5"
proof -
  let ?r4 = "proj @ l5"
  let ?r3 = "pf @ l4 @ ?r4"
  let ?r2 = "sc @ l3 @ ?r3"
  have "placeholders ?r4 = placeholders proj @ placeholders l5"
    using l5 by (intro placeholders_append_clean_start) simp
  moreover have "placeholders ?r3 = placeholders pf @ placeholders l4 @ placeholders ?r4"
    using l4 by (rule placeholders_between)
  moreover have "placeholders ?r2 = placeholders sc @ placeholders l3 @ placeholders ?r3"
    using l3 by (rule placeholders_between)
  moreover have "placeholders (l2 @ ?r2) = placeholders l2 @ placeholders ?r2"
    using sc l3 by (intro placeholders_append_clean_start) (auto simp: hd_append)
  moreover have "placeholders (idx @ l2 @ ?r2) = placeholders idx @ placeholders (l2 @ ?r2)"
    using l2 by (intro placeholders_append_clean_start) simp
  moreover have "placeholders (l1 @ idx @ l2 @ ?r2) = placeholders l1 @ placeholders (idx @ l2 @ ?r2)"
    using l1 by (rule placeholders_append_clean_end)
  ultimately show ?thesis by simp
qed

lemma placeholders_index_scope_clause:
  "placeholders (index_scope_clause k single) = (case single of Some g \<Rightarrow> [''group_id''] | None \<Rightarrow> [])"
  by (cases k; cases single) (simp_all add: index_scope_clause_def is_ident_char_def)

lemma index_scope_clause_start:
  "index_scope_clause k single = [] \<or> \<not> is_ident_char (hd (index_scope_clause k single))"
  by (cases single) (simp_all add: index_scope_clause_def is_ident_char_def)

lemma ordered_query_text_pieces:
  "ordered_query_text k idx single preds proj =
     (''\<newline>        '' @ match_clause k @ ''\<newline>        SEARCH '' @ entity_var k
        @ '' IN (\<newline>            VECTOR INDEX '')
     @ idx @ ''\<newline>            FOR $search_vector'' @ index_scope_clause k single
     @ (''\<newline>            LIMIT $limit\<newline>        ) SCORE AS score''
        @ concat (map (\<lambda>c. ''\<newline>        '' @ c) (rematch_clauses k)) @ ''\<newline>        '')
     @ post_filter_clause preds @ ''\<newline>        RETURN\<newline>        '' @ proj
     @ ''\<newline>        ORDER BY score DESC\<newline>        LIMIT $limit\<newline>        ''"
  by (cases k)
     (simp_all add: ordered_query_text_def clause_lines_def vector_lookup_clause_def
        return_clause_def)

lemma placeholders_ordered_query_text:
  "placeholders (ordered_query_text k idx single preds proj) =
     placeholders idx @ [''search_vector'']
       @ (case single of Some g \<Rightarrow> [''group_id''] | None \<Rightarrow> [])
       @ [''limit''] @ concat (map placeholders preds) @ [''min_score'']
       @ placeholders proj @ [''limit'']"
proof -
  let ?l1 = "''\<newline>        '' @ match_clause k @ ''\<newline>        SEARCH '' @ entity_var k
        @ '' IN (\<newline>            VECTOR INDEX ''"
  let ?l2 = "''\<newline>            FOR $search_vector''"
  let ?l3 = "''\<newline>            LIMIT $limit\<newline>        ) SCORE AS score''
        @ concat (map (\<lambda>c. ''\<newline>        '' @ c) (rematch_clauses k)) @ ''\<newline>        ''"
  let ?l4 = "''\<newline>        RETURN\<newline>        ''"
  let ?l5 = "''\<newline>        ORDER BY score DESC\<newline>        LIMIT $limit\<newline>        ''"
  have p1: "placeholders ?l1 = []"
    by (cases k) (simp_all add: is_ident_char_def)
  have p2: "placeholders ?l2 = [''search_vector'']"
    by (simp add: is_ident_char_def)
  have p3: "placeholders ?l3 = [''limit'']"
    by (cases k) (simp_all add: is_ident_char_def)
  have p4: "placeholders ?l4 = []"
    by simp
  have p5: "placeholders ?l5 = [''limit'']"
    by (simp add: is_ident_char_def)
  have "placeholders (?l1 @ idx @ ?l2 @ index_scope_clause k single @ ?l3
          @ post_filter_clause preds @ ?l4 @ proj @ ?l5) =
     placeholders ?l1 @ placeholders idx @ placeholders ?l2
       @ placeholders (index_scope_clause k single) @ placeholders ?l3
       @ placeholders (post_filter_clause preds) @ placeholders ?l4 @ placeholders proj
       @ placeholders ?l5"
    by (rule placeholders_template)
       (simp_all add: is_ident_char_def index_scope_clause_start [unfolded is_ident_char_def])
  then show ?thesis
    by (simp only: ordered_query_text_pieces p1 p2 p3 p4 p5 placeholders_index_scope_clause
        placeholders_post_filter_clause append_Nil append_assoc)
qed

subsection \<open>Scope handling of the assemblers\<close>

lemma example_env_simps:
  "NEO4J_ENTITY_VECTOR_INDEX example_env = ''entity_embedding_index''"
  "NEO4J_COMMUNITY_VECTOR_INDEX example_env = ''community_embedding_index''"
  "NEO4J_EDGE_VECTOR_INDEX example_env = ''edge_embedding_index''"
  "get_entity_node_return_query example_env p = ''n.uuid AS uuid, n.name AS name''"
  "COMMUNITY_NODE_RETURN example_env = ''c.uuid AS uuid, c.name AS name''"
  "get_entity_edge_return_query example_env p = ''e.uuid AS uuid, n.uuid AS source_node_uuid''"
  "node_search_filter_query_constructor example_env = example_filter_constructor ''n''"
  "edge_search_filter_query_constructor example_env = example_filter_constructor ''e''"
  by (simp_all add: example_env_def)

text \<open>
  Claim C2, as stated, fails: with the empty list each assembler binds \<^verbatim>\<open>group_ids\<close>
  to the empty list, with \<^verbatim>\<open>None\<close> it does not.
\<close>

theorem empty_scope_not_absent_counterexample:
  "snd (build_node_vector_search_query example_env None (Some [])) ''group_ids''
     = Some (PStrList [])
   \<and> snd (build_node_vector_search_query example_env None None) ''group_ids'' = None
   \<and> snd (build_community_vector_search_query example_env (Some [])) ''group_ids''
     = Some (PStrList [])
   \<and> snd (build_community_vector_search_query example_env None) ''group_ids'' = None
   \<and> snd (build_edge_vector_search_query example_env None (Some []) None None) ''group_ids''
     = Some (PStrList [])
   \<and> snd (build_edge_vector_search_query example_env None None None None) ''group_ids'' = None"
  by (simp add: node_refines community_refines edge_refines split_group_ids_Nil
      split_group_ids_None scope_bindings_def index_scope_bindings_def endpoint_bindings_def
      source_bindings_def target_bindings_def example_env_simps example_filter_constructor_def)

text \<open>
  Claim C2, amended. With \<^verbatim>\<open>group_ids = None\<close> each assembler adds no group-scoping
  clause and no binding of its own: the post-filter predicates and the parameter mapping
  are the filter constructor's (none for communities). With \<^verbatim>\<open>group_ids = []\<close> each
  assembler adds the membership predicate on \<^verbatim>\<open>$group_ids\<close> to the post-filter clause and
  binds \<^verbatim>\<open>group_ids\<close> to the empty list; there is no index-scope clause and no
  \<^verbatim>\<open>group_id\<close> binding in either case.
\<close>

theorem empty_scope_vs_absent:
  "build_node_vector_search_query env sf None =
     (ordered_query_text NodeKind (NEO4J_ENTITY_VECTOR_INDEX env) None
        (fst (node_search_filter_query_constructor env sf NEO4J))
        (get_entity_node_return_query env NEO4J),
      snd (node_search_filter_query_constructor env sf NEO4J))
   \<and> build_node_vector_search_query env sf (Some []) =
     (ordered_query_text NodeKind (NEO4J_ENTITY_VECTOR_INDEX env) None
        (fst (node_search_filter_query_constructor env sf NEO4J) @ [''n.group_id IN $group_ids''])
        (get_entity_node_return_query env NEO4J),
      (snd (node_search_filter_query_constructor env sf NEO4J))(''group_ids'' \<mapsto> PStrList []))
   \<and> build_community_vector_search_query env None =
     (ordered_query_text CommunityKind (NEO4J_COMMUNITY_VECTOR_INDEX env) None []
        (COMMUNITY_NODE_RETURN env),
      Map.empty)
   \<and> build_community_vector_search_query env (Some []) =
     (ordered_query_text CommunityKind (NEO4J_COMMUNITY_VECTOR_INDEX env) None
        [''c.group_id IN $group_ids''] (COMMUNITY_NODE_RETURN env),
      [''group_ids'' \<mapsto> PStrList []])
   \<and> build_edge_vector_search_query env sf None None None =
     (ordered_query_text EdgeKind (NEO4J_EDGE_VECTOR_INDEX env) None
        (fst (edge_search_filter_query_constructor env sf NEO4J))
        (get_entity_edge_return_query env NEO4J),
      snd (edge_search_filter_query_constructor env sf NEO4J))
   \<and> build_edge_vector_search_query env sf (Some []) None None =
     (ordered_query_text EdgeKind (NEO4J_EDGE_VECTOR_INDEX env) None
        (fst (edge_search_filter_query_constructor env sf NEO4J) @ [''e.group_id IN $group_ids''])
        (get_entity_edge_return_query env NEO4J),
      (snd (edge_search_filter_query_constructor env sf NEO4J))(''group_ids'' \<mapsto> PStrList []))"
  by (simp add: node_refines community_refines edge_refines split_group_ids_Nil
      split_group_ids_None scope_bindings_def index_scope_bindings_def endpoint_bindings_def
      scope_predicates_def endpoint_predicates_def
      source_bindings_def target_bindings_def source_predicates_def target_predicates_def)

text \<open>
  Claim C3, as stated, fails: the returned mapping holds \<^verbatim>\<open>group_id\<close> alone, and
  \<^verbatim>\<open>min_score\<close> is not a key of it.
\<close>

theorem node_single_scope_min_score_counterexample:
  "snd (build_node_vector_search_query example_env None (Some [''tenantA'']))
     = [''group_id'' \<mapsto> PStr ''tenantA'']
   \<and> snd (build_node_vector_search_query example_env None (Some [''tenantA''])) ''min_score''
     = None"
  by (simp add: node_refines split_group_ids_single scope_bindings_def index_scope_bindings_def
      example_env_simps example_filter_constructor_def)

text \<open>
  Claim C3, amended. For a node search with \<^verbatim>\<open>group_ids = ["tenantA"]\<close> and a filter for
  which the constructor returns no fragment and no binding, the query text has the
  index-scope clause \<^verbatim>\<open>WHERE n.group_id = $group_id\<close> inside the index lookup, its
  post-filter clause is the score threshold alone (no membership predicate on
  \<^verbatim>\<open>$group_ids\<close>), and the parameter mapping is exactly \<^verbatim>\<open>{group_id: "tenantA"}\<close>:
  \<^verbatim>\<open>$min_score\<close> is referenced by the text and not bound by the mapping.
\<close>

theorem node_single_scope_scenario:
  assumes "node_search_filter_query_constructor env sf NEO4J = ([], Map.empty)"
  shows "fst (build_node_vector_search_query env sf (Some [''tenantA''])) =
       ''\<newline>        MATCH (n:Entity)\<newline>        SEARCH n IN (\<newline>            VECTOR INDEX ''
       @ NEO4J_ENTITY_VECTOR_INDEX env
       @ ''\<newline>            FOR $search_vector WHERE n.group_id = $group_id\<newline>            LIMIT $limit\<newline>        ) SCORE AS score\<newline>         WHERE score > $min_score\<newline>        RETURN\<newline>        ''
       @ get_entity_node_return_query env NEO4J
       @ ''\<newline>        ORDER BY score DESC\<newline>        LIMIT $limit\<newline>        ''
     \<and> placeholders (fst (build_node_vector_search_query env sf (Some [''tenantA'']))) =
       placeholders (NEO4J_ENTITY_VECTOR_INDEX env)
       @ [''search_vector'', ''group_id'', ''limit'', ''min_score'']
       @ placeholders (get_entity_node_return_query env NEO4J) @ [''limit'']
     \<and> snd (build_node_vector_search_query env sf (Some [''tenantA''])) =
       [''group_id'' \<mapsto> PStr ''tenantA'']"
proof (intro conjI)
  show "fst (build_node_vector_search_query env sf (Some [''tenantA''])) =
       ''\<newline>        MATCH (n:Entity)\<newline>        SEARCH n IN (\<newline>            VECTOR INDEX ''
       @ NEO4J_ENTITY_VECTOR_INDEX env
       @ ''\<newline>            FOR $search_vector WHERE n.group_id = $group_id\<newline>            LIMIT $limit\<newline>        ) SCORE AS score\<newline>         WHERE score > $min_score\<newline>        RETURN\<newline>        ''
       @ get_entity_node_return_query env NEO4J
       @ ''\<newline>        ORDER BY score DESC\<newline>        LIMIT $limit\<newline>        ''"
    by (simp add: build_node_vector_search_query_def node_query_def assms split_group_ids_single)
  show "placeholders (fst (build_node_vector_search_query env sf (Some [''tenantA'']))) =
       placeholders (NEO4J_ENTITY_VECTOR_INDEX env)
       @ [''search_vector'', ''group_id'', ''limit'', ''min_score'']
       @ placeholders (get_entity_node_return_query env NEO4J) @ [''limit'']"
    by (simp add: node_refines assms split_group_ids_single placeholders_ordered_query_text
        scope_predicates_def)
  show "snd (build_node_vector_search_query env sf (Some [''tenantA''])) =
       [''group_id'' \<mapsto> PStr ''tenantA'']"
    by (simp add: node_refines assms split_group_ids_single scope_bindings_def
        index_scope_bindings_def)
qed

theorem node_single_scope_scenario_witness:
  "node_search_filter_query_constructor example_env None NEO4J = ([], Map.empty)
   \<and> snd (build_node_vector_search_query example_env None (Some [''tenantA''])) =
       [''group_id'' \<mapsto> PStr ''tenantA'']
   \<and> placeholders (fst (build_node_vector_search_query example_env None (Some [''tenantA'']))) =
       [''search_vector'', ''group_id'', ''limit'', ''min_score'', ''limit'']"
proof -
  have h: "node_search_filter_query_constructor example_env None NEO4J = ([], Map.empty)"
    by (simp add: example_env_simps example_filter_constructor_def)
  show ?thesis
    using h node_single_scope_scenario [OF h, THEN conjunct2]
    by (simp add: example_env_simps)
qed

subsection \<open>Bindings left to the execution layer, and the endpoint gate\<close>

lemma reserved_not_module_key:
  assumes "k \<in> {''search_vector'', ''limit'', ''min_score''}"
  shows "index_scope_bindings sg k = None" "scope_bindings pg k = None"
    "endpoint_bindings gids src tgt k = None"
  using assms
  by (auto simp: index_scope_bindings_def scope_bindings_def endpoint_bindings_def
      source_bindings_def target_bindings_def map_add_def split: option.splits)

lemma template_references:
  "{''search_vector'', ''limit'', ''min_score''}
     \<subseteq> set (placeholders (ordered_query_text k idx single preds proj))"
  by (simp add: placeholders_ordered_query_text)

text \<open>
  Claim C4. None of the three assemblers binds \<^verbatim>\<open>search_vector\<close>, \<^verbatim>\<open>limit\<close> or
  \<^verbatim>\<open>min_score\<close>: under each of these keys the returned mapping holds what the filter
  constructor's mapping holds (nothing, for communities), so the key is absent whenever
  the constructor does not bind it. The returned text references all three placeholders.
\<close>

theorem externally_bound_parameters:
  assumes "k \<in> {''search_vector'', ''limit'', ''min_score''}"
  shows "snd (build_node_vector_search_query env sf gids) k =
       snd (node_search_filter_query_constructor env sf NEO4J) k
     \<and> snd (build_community_vector_search_query env gids) k = None
     \<and> snd (build_edge_vector_search_query env sf gids src tgt) k =
       snd (edge_search_filter_query_constructor env sf NEO4J) k
     \<and> k \<in> set (placeholders (fst (build_node_vector_search_query env sf gids)))
     \<and> k \<in> set (placeholders (fst (build_community_vector_search_query env gids)))
     \<and> k \<in> set (placeholders (fst (build_edge_vector_search_query env sf gids src tgt)))"
proof (intro conjI)
  note none = reserved_not_module_key [OF assms]
  show "snd (build_node_vector_search_query env sf gids) k =
       snd (node_search_filter_query_constructor env sf NEO4J) k"
    by (simp add: node_refines map_add_def none split: option.splits)
  show "snd (build_community_vector_search_query env gids) k = None"
    by (simp add: community_refines map_add_def none split: option.splits)
  show "snd (build_edge_vector_search_query env sf gids src tgt) k =
       snd (edge_search_filter_query_constructor env sf NEO4J) k"
    by (simp add: edge_refines map_add_def none split: option.splits)
  show "k \<in> set (placeholders (fst (build_node_vector_search_query env sf gids)))"
    using assms template_references by (simp only: node_refines fst_conv) blast
  show "k \<in> set (placeholders (fst (build_community_vector_search_query env gids)))"
    using assms template_references by (simp only: community_refines fst_conv) blast
  show "k \<in> set (placeholders (fst (build_edge_vector_search_query env sf gids src tgt)))"
    using assms template_references by (simp only: edge_refines fst_conv) blast
qed

theorem externally_bound_parameters_witness:
  "''min_score'' \<in> {''search_vector'', ''limit'', ''min_score''}
   \<and> snd (build_node_vector_search_query example_env (Some ''Ada'') (Some [''a'', ''b''])) ''min_score'' = None
   \<and> snd (build_community_vector_search_query example_env (Some [''a'', ''b''])) ''min_score'' = None
   \<and> snd (build_edge_vector_search_query example_env (Some ''Ada'') (Some [''a'', ''b''])
         (Some ''x'') None) ''min_score'' = None
   \<and> ''min_score'' \<in> set (placeholders (fst (build_node_vector_search_query example_env
         (Some ''Ada'') (Some [''a'', ''b'']))))"
proof -
  have h: "''min_score'' \<in> {''search_vector'', ''limit'', ''min_score''}" by simp
  show ?thesis
    using externally_bound_parameters [OF h, of example_env "Some ''Ada''" "Some [''a'', ''b'']"
        "Some ''x''" None]
    by (simp add: example_env_simps example_filter_constructor_def)
qed

text \<open>
  Claim C6. With \<^verbatim>\<open>group_ids = None\<close> the edge assembler ignores the endpoint
  identifiers: the result is the one for no endpoints, its post-filter predicates and its
  parameter mapping are the filter constructor's alone, so no endpoint predicate is
  added and \<^verbatim>\<open>source_uuid\<close> and \<^verbatim>\<open>target_uuid\<close> are not bound by the assembler. With any
  \<^verbatim>\<open>group_ids\<close> other than \<^verbatim>\<open>None\<close>, a given endpoint is bound.
\<close>

theorem edge_endpoints_gated_on_scope:
  "build_edge_vector_search_query env sf None src tgt =
     build_edge_vector_search_query env sf None None None
   \<and> build_edge_vector_search_query env sf None (Some ''x'') tgt =
     (ordered_query_text EdgeKind (NEO4J_EDGE_VECTOR_INDEX env) None
        (fst (edge_search_filter_query_constructor env sf NEO4J))
        (get_entity_edge_return_query env NEO4J),
      snd (edge_search_filter_query_constructor env sf NEO4J))
   \<and> (gids \<noteq> None \<longrightarrow>
        snd (build_edge_vector_search_query env sf gids (Some s) None) ''source_uuid''
          = Some (PStr s)
      \<and> snd (build_edge_vector_search_query env sf gids None (Some t)) ''target_uuid''
          = Some (PStr t))"
  by (simp add: edge_refines split_group_ids_None scope_bindings_def scope_predicates_def
      index_scope_bindings_def endpoint_bindings_def endpoint_predicates_def
      source_bindings_def target_bindings_def source_predicates_def target_predicates_def)

theorem edge_endpoints_gated_on_scope_witness:
  "Some [''g''] \<noteq> (None :: string list option)
   \<and> snd (build_edge_vector_search_query example_env None (Some [''g'']) (Some ''x'') None)
        ''source_uuid'' = Some (PStr ''x'')
   \<and> snd (build_edge_vector_search_query example_env None (Some [''g'']) None (Some ''y''))
        ''target_uuid'' = Some (PStr ''y'')
   \<and> build_edge_vector_search_query example_env None None (Some ''x'') None =
       build_edge_vector_search_query example_env None None None None"
  using edge_endpoints_gated_on_scope [where env = example_env and sf = None
      and src = "Some ''x''" and tgt = None and gids = "Some [''g'']" and s = "''x''"
      and t = "''y''"]
  by simp

text \<open>
  Claim C10. With \<^verbatim>\<open>group_ids = []\<close> the edge assembler treats the scope as supplied:
  the endpoint predicates follow the membership predicate in the post-filter clause and
  \<^verbatim>\<open>source_uuid\<close> and \<^verbatim>\<open>target_uuid\<close> are bound to the given endpoints. With
  \<^verbatim>\<open>group_ids = None\<close> and the same endpoints, the mapping is the filter constructor's.
\<close>

theorem edge_empty_scope_is_supplied:
  "build_edge_vector_search_query env sf (Some []) (Some s) (Some t) =
     (ordered_query_text EdgeKind (NEO4J_EDGE_VECTOR_INDEX env) None
        (fst (edge_search_filter_query_constructor env sf NEO4J)
           @ [''e.group_id IN $group_ids'', ''n.uuid = $source_uuid'', ''m.uuid = $target_uuid''])
        (get_entity_edge_return_query env NEO4J),
      (snd (edge_search_filter_query_constructor env sf NEO4J))
        (''group_ids'' \<mapsto> PStrList [], ''source_uuid'' \<mapsto> PStr s, ''target_uuid'' \<mapsto> PStr t))
   \<and> build_edge_vector_search_query env sf (Some []) (Some s) None =
     (ordered_query_text EdgeKind (NEO4J_EDGE_VECTOR_INDEX env) None
        (fst (edge_search_filter_query_constructor env sf NEO4J)
           @ [''e.group_id IN $group_ids'', ''n.uuid = $source_uuid''])
        (get_entity_edge_return_query env NEO4J),
      (snd (edge_search_filter_query_constructor env sf NEO4J))
        (''group_ids'' \<mapsto> PStrList [], ''source_uuid'' \<mapsto> PStr s))
   \<and> build_edge_vector_search_query env sf (Some []) None (Some t) =
     (ordered_query_text EdgeKind (NEO4J_EDGE_VECTOR_INDEX env) None
        (fst (edge_search_filter_query_constructor env sf NEO4J)
           @ [''e.group_id IN $group_ids'', ''m.uuid = $target_uuid''])
        (get_entity_edge_return_query env NEO4J),
      (snd (edge_search_filter_query_constructor env sf NEO4J))
        (''group_ids'' \<mapsto> PStrList [], ''target_uuid'' \<mapsto> PStr t))
   \<and> snd (build_edge_vector_search_query env sf None (Some s) (Some t)) =
     snd (edge_search_filter_query_constructor env sf NEO4J)"
  by (simp add: edge_refines split_group_ids_None split_group_ids_Nil scope_bindings_def
      scope_predicates_def index_scope_bindings_def endpoint_bindings_def
      endpoint_predicates_def source_bindings_def target_bindings_def
      source_predicates_def target_predicates_def)

subsection \<open>Placeholders against parameter keys\<close>

lemma dom_index_scope_bindings:
  "dom (index_scope_bindings sg :: 'a params) =
     set (case sg of Some g \<Rightarrow> [''group_id''] | None \<Rightarrow> [])"
  by (cases sg) (simp_all add: index_scope_bindings_def)

lemma placeholders_scope_predicates:
  "(\<Union>f\<in>set (scope_predicates k pg). set (placeholders f)) = dom (scope_bindings pg :: 'a params)"
  by (cases k; cases pg) (simp_all add: scope_predicates_def scope_bindings_def is_ident_char_def)

lemma placeholders_endpoint_predicates:
  "(\<Union>f\<in>set (endpoint_predicates gids src tgt). set (placeholders f)) =
     dom (endpoint_bindings gids src tgt :: 'a params)"
  by (cases src; cases tgt; cases "gids = None")
     (auto simp: endpoint_predicates_def endpoint_bindings_def source_predicates_def
        target_predicates_def source_bindings_def target_bindings_def is_ident_char_def)

lemma set_placeholders_ordered_query_text:
  "set (placeholders (ordered_query_text k idx sg preds proj)) =
     set (placeholders idx) \<union> set (placeholders proj)
     \<union> set (case sg of Some g \<Rightarrow> [''group_id''] | None \<Rightarrow> [])
     \<union> (\<Union>f\<in>set preds. set (placeholders f))
     \<union> {''search_vector'', ''limit'', ''min_score''}"
  by (auto simp: placeholders_ordered_query_text)

text \<open>
  Claim C7. Provided the index names and the return projections hold no placeholder, and
  the placeholders of the fragments a filter constructor returns are exactly the keys of
  the mapping it returns, the placeholders of the text each assembler returns are exactly
  the keys of the mapping it returns together with \<^verbatim>\<open>search_vector\<close>, \<^verbatim>\<open>limit\<close> and
  \<^verbatim>\<open>min_score\<close>.
\<close>

theorem placeholders_match_parameters:
  assumes "placeholders (NEO4J_ENTITY_VECTOR_INDEX env) = []"
    and "placeholders (get_entity_node_return_query env NEO4J) = []"
    and "placeholders (NEO4J_COMMUNITY_VECTOR_INDEX env) = []"
    and "placeholders (COMMUNITY_NODE_RETURN env) = []"
    and "placeholders (NEO4J_EDGE_VECTOR_INDEX env) = []"
    and "placeholders (get_entity_edge_return_query env NEO4J) = []"
    and "(\<Union>f\<in>set (fst (node_search_filter_query_constructor env sf NEO4J)). set (placeholders f))
           = dom (snd (node_search_filter_query_constructor env sf NEO4J))"
    and "(\<Union>f\<in>set (fst (edge_search_filter_query_constructor env sf NEO4J)). set (placeholders f))
           = dom (snd (edge_search_filter_query_constructor env sf NEO4J))"
  shows "set (placeholders (fst (build_node_vector_search_query env sf gids))) =
       dom (snd (build_node_vector_search_query env sf gids))
         \<union> {''search_vector'', ''limit'', ''min_score''}
     \<and> set (placeholders (fst (build_community_vector_search_query env gids))) =
       dom (snd (build_community_vector_search_query env gids))
         \<union> {''search_vector'', ''limit'', ''min_score''}
     \<and> set (placeholders (fst (build_edge_vector_search_query env sf gids src tgt))) =
       dom (snd (build_edge_vector_search_query env sf gids src tgt))
         \<union> {''search_vector'', ''limit'', ''min_score''}"
proof (intro conjI)
  show "set (placeholders (fst (build_node_vector_search_query env sf gids))) =
       dom (snd (build_node_vector_search_query env sf gids))
         \<union> {''search_vector'', ''limit'', ''min_score''}"
    unfolding node_refines fst_conv snd_conv set_placeholders_ordered_query_text
      dom_map_add dom_index_scope_bindings set_append UN_Un
      placeholders_scope_predicates [where 'a = 'b] assms
    by auto
  show "set (placeholders (fst (build_community_vector_search_query env gids))) =
       dom (snd (build_community_vector_search_query env gids))
         \<union> {''search_vector'', ''limit'', ''min_score''}"
    unfolding community_refines fst_conv snd_conv set_placeholders_ordered_query_text
      dom_map_add dom_index_scope_bindings
      placeholders_scope_predicates [where 'a = 'b] assms
    by auto
  show "set (placeholders (fst (build_edge_vector_search_query env sf gids src tgt))) =
       dom (snd (build_edge_vector_search_query env sf gids src tgt))
         \<union> {''search_vector'', ''limit'', ''min_score''}"
    unfolding edge_refines fst_conv snd_conv set_placeholders_ordered_query_text
      dom_map_add dom_index_scope_bindings set_append UN_Un
      placeholders_scope_predicates [where 'a = 'b]
      placeholders_endpoint_predicates [where 'a = 'b] assms
    by auto
qed

theorem placeholders_match_parameters_witness:
  "placeholders (NEO4J_ENTITY_VECTOR_INDEX example_env) = []
   \<and> placeholders (get_entity_node_return_query example_env NEO4J) = []
   \<and> placeholders (NEO4J_COMMUNITY_VECTOR_INDEX example_env) = []
   \<and> placeholders (COMMUNITY_NODE_RETURN example_env) = []
   \<and> placeholders (NEO4J_EDGE_VECTOR_INDEX example_env) = []
   \<and> placeholders (get_entity_edge_return_query example_env NEO4J) = []
   \<and> (\<Union>f\<in>set (fst (node_search_filter_query_constructor example_env (Some ''Ada'') NEO4J)).
         set (placeholders f))
       = dom (snd (node_search_filter_query_constructor example_env (Some ''Ada'') NEO4J))
   \<and> (\<Union>f\<in>set (fst (edge_search_filter_query_constructor example_env (Some ''Ada'') NEO4J)).
         set (placeholders f))
       = dom (snd (edge_search_filter_query_constructor example_env (Some ''Ada'') NEO4J))
   \<and> set (placeholders (fst (build_edge_vector_search_query example_env (Some ''Ada'')
         (Some [''a'', ''b'']) (Some ''x'') None))) =
       dom (snd (build_edge_vector_search_query example_env (Some ''Ada'')
         (Some [''a'', ''b'']) (Some ''x'') None))
         \<union> {''search_vector'', ''limit'', ''min_score''}"
proof -
  have h1: "placeholders (NEO4J_ENTITY_VECTOR_INDEX example_env) = []"
    and h2: "placeholders (get_entity_node_return_query example_env NEO4J) = []"
    and h3: "placeholders (NEO4J_COMMUNITY_VECTOR_INDEX example_env) = []"
    and h4: "placeholders (COMMUNITY_NODE_RETURN example_env) = []"
    and h5: "placeholders (NEO4J_EDGE_VECTOR_INDEX example_env) = []"
    and h6: "placeholders (get_entity_edge_return_query example_env NEO4J) = []"
    by (simp_all add: example_env_simps)
  have h7: "(\<Union>f\<in>set (fst (node_search_filter_query_constructor example_env (Some ''Ada'') NEO4J)).
         set (placeholders f))
       = dom (snd (node_search_filter_query_constructor example_env (Some ''Ada'') NEO4J))"
    and h8: "(\<Union>f\<in>set (fst (edge_search_filter_query_constructor example_env (Some ''Ada'') NEO4J)).
         set (placeholders f))
       = dom (snd (edge_search_filter_query_constructor example_env (Some ''Ada'') NEO4J))"
    by (simp_all add: example_env_simps example_filter_constructor_def is_ident_char_def)
  from placeholders_match_parameters [OF h1 h2 h3 h4 h5 h6 h7 h8,
      of "Some [''a'', ''b'']" "Some ''x''" None]
  have "set (placeholders (fst (build_edge_vector_search_query example_env (Some ''Ada'')
         (Some [''a'', ''b'']) (Some ''x'') None))) =
       dom (snd (build_edge_vector_search_query example_env (Some ''Ada'')
         (Some [''a'', ''b'']) (Some ''x'') None))
         \<union> {''search_vector'', ''limit'', ''min_score''}"
    by (rule conjunct2 [THEN conjunct2])
  with h1 h2 h3 h4 h5 h6 h7 h8 show ?thesis by (intro conjI)
qed

subsection \<open>Clause order\<close>

lemma post_filter_clause_shape:
  "\<exists>pre. post_filter_clause preds = '' WHERE '' @ pre @ ''score > $min_score''"
proof (cases "preds = []")
  case True
  then have "post_filter_clause preds = '' WHERE '' @ [] @ ''score > $min_score''"
    by (simp add: post_filter_clause_def)
  then show ?thesis by blast
next
  case False
  then have "post_filter_clause preds =
      '' WHERE '' @ (join '' AND '' preds @ '' AND '') @ ''score > $min_score''"
    by (simp add: post_filter_clause_def join_snoc)
  then show ?thesis by blast
qed

text \<open>
  Claim C9. The text each assembler returns is the fixed sequence of clauses, one per
  line: the match pattern; the index lookup, which holds the index-scope clause (the
  equality on \<^verbatim>\<open>$group_id\<close> when the scope is a single identifier, nothing otherwise)
  and \<^verbatim>\<open>LIMIT $limit\<close> and yields the score; for edges only, the re-match of the full
  relationship pattern; the post-filter clause, which ends with \<^verbatim>\<open>score > $min_score\<close>;
  the return projection; \<^verbatim>\<open>ORDER BY score DESC\<close>; and \<^verbatim>\<open>LIMIT $limit\<close> again.
\<close>

theorem fixed_clause_order:
  "fst (build_node_vector_search_query env sf gids) =
     clause_lines
       [''MATCH (n:Entity)'',
        ''SEARCH n IN (\<newline>            VECTOR INDEX '' @ NEO4J_ENTITY_VECTOR_INDEX env
          @ ''\<newline>            FOR $search_vector''
          @ index_scope_clause NodeKind (fst (split_group_ids gids))
          @ ''\<newline>            LIMIT $limit\<newline>        ) SCORE AS score'',
        post_filter_clause
          (fst (node_search_filter_query_constructor env sf NEO4J)
             @ scope_predicates NodeKind (snd (split_group_ids gids))),
        ''RETURN\<newline>        '' @ get_entity_node_return_query env NEO4J,
        ''ORDER BY score DESC'',
        ''LIMIT $limit'']
   \<and> fst (build_community_vector_search_query env gids) =
     clause_lines
       [''MATCH (c:Community)'',
        ''SEARCH c IN (\<newline>            VECTOR INDEX '' @ NEO4J_COMMUNITY_VECTOR_INDEX env
          @ ''\<newline>            FOR $search_vector''
          @ index_scope_clause CommunityKind (fst (split_group_ids gids))
          @ ''\<newline>            LIMIT $limit\<newline>        ) SCORE AS score'',
        post_filter_clause (scope_predicates CommunityKind (snd (split_group_ids gids))),
        ''RETURN\<newline>        '' @ COMMUNITY_NODE_RETURN env,
        ''ORDER BY score DESC'',
        ''LIMIT $limit'']
   \<and> fst (build_edge_vector_search_query env sf gids src tgt) =
     clause_lines
       [''MATCH ()-[e:RELATES_TO]-()'',
        ''SEARCH e IN (\<newline>            VECTOR INDEX '' @ NEO4J_EDGE_VECTOR_INDEX env
          @ ''\<newline>            FOR $search_vector''
          @ index_scope_clause EdgeKind (fst (split_group_ids gids))
          @ ''\<newline>            LIMIT $limit\<newline>        ) SCORE AS score'',
        ''WITH e, score'',
        ''MATCH (n:Entity)-[e:RELATES_TO]->(m:Entity)'',
        post_filter_clause
          (fst (edge_search_filter_query_constructor env sf NEO4J)
             @ scope_predicates EdgeKind (snd (split_group_ids gids))
             @ endpoint_predicates gids src tgt),
        ''RETURN\<newline>        '' @ get_entity_edge_return_query env NEO4J,
        ''ORDER BY score DESC'',
        ''LIMIT $limit'']
   \<and> (gids = Some [g] \<longrightarrow>
        index_scope_clause k (fst (split_group_ids gids)) =
          '' WHERE '' @ entity_var k @ ''.group_id = $group_id'')
   \<and> ((\<forall>g. gids \<noteq> Some [g]) \<longrightarrow>
        index_scope_clause k (fst (split_group_ids gids)) = [])
   \<and> (\<exists>pre. post_filter_clause preds = '' WHERE '' @ pre @ ''score > $min_score'')"
proof (intro conjI)
  show "fst (build_node_vector_search_query env sf gids) =
     clause_lines
       [''MATCH (n:Entity)'',
        ''SEARCH n IN (\<newline>            VECTOR INDEX '' @ NEO4J_ENTITY_VECTOR_INDEX env
          @ ''\<newline>            FOR $search_vector''
          @ index_scope_clause NodeKind (fst (split_group_ids gids))
          @ ''\<newline>            LIMIT $limit\<newline>        ) SCORE AS score'',
        post_filter_clause
          (fst (node_search_filter_query_constructor env sf NEO4J)
             @ scope_predicates NodeKind (snd (split_group_ids gids))),
        ''RETURN\<newline>        '' @ get_entity_node_return_query env NEO4J,
        ''ORDER BY score DESC'',
        ''LIMIT $limit'']"
    by (simp add: node_refines ordered_query_text_def vector_lookup_clause_def
        return_clause_def)
  show "fst (build_community_vector_search_query env gids) =
     clause_lines
       [''MATCH (c:Community)'',
        ''SEARCH c IN (\<newline>            VECTOR INDEX '' @ NEO4J_COMMUNITY_VECTOR_INDEX env
          @ ''\<newline>            FOR $search_vector''
          @ index_scope_clause CommunityKind (fst (split_group_ids gids))
          @ ''\<newline>            LIMIT $limit\<newline>        ) SCORE AS score'',
        post_filter_clause (scope_predicates CommunityKind (snd (split_group_ids gids))),
        ''RETURN\<newline>        '' @ COMMUNITY_NODE_RETURN env,
        ''ORDER BY score DESC'',
        ''LIMIT $limit'']"
    by (simp add: community_refines ordered_query_text_def vector_lookup_clause_def
        return_clause_def)
  show "fst (build_edge_vector_search_query env sf gids src tgt) =
     clause_lines
       [''MATCH ()-[e:RELATES_TO]-()'',
        ''SEARCH e IN (\<newline>            VECTOR INDEX '' @ NEO4J_EDGE_VECTOR_INDEX env
          @ ''\<newline>            FOR $search_vector''
          @ index_scope_clause EdgeKind (fst (split_group_ids gids))
          @ ''\<newline>            LIMIT $limit\<newline>        ) SCORE AS score'',
        ''WITH e, score'',
        ''MATCH (n:Entity)-[e:RELATES_TO]->(m:Entity)'',
        post_filter_clause
          (fst (edge_search_filter_query_constructor env sf NEO4J)
             @ scope_predicates EdgeKind (snd (split_group_ids gids))
             @ endpoint_predicates gids src tgt),
        ''RETURN\<newline>        '' @ get_entity_edge_return_query env NEO4J,
        ''ORDER BY score DESC'',
        ''LIMIT $limit'']"
    by (simp add: edge_refines ordered_query_text_def vector_lookup_clause_def
        return_clause_def)
  show "gids = Some [g] \<longrightarrow>
        index_scope_clause k (fst (split_group_ids gids)) =
          '' WHERE '' @ entity_var k @ ''.group_id = $group_id''"
    by (simp add: split_group_ids_single index_scope_clause_def)
  show "(\<forall>g. gids \<noteq> Some [g]) \<longrightarrow>
        index_scope_clause k (fst (split_group_ids gids)) = []"
    by (auto simp: split_group_ids_def index_scope_clause_def split: option.splits list.splits)
  show "\<exists>pre. post_filter_clause preds = '' WHERE '' @ pre @ ''score > $min_score''"
    by (rule post_filter_clause_shape)
qed

theorem fixed_clause_order_witness:
  "Some [''tenantA''] = Some [''tenantA'']
   \<and> index_scope_clause NodeKind (fst (split_group_ids (Some [''tenantA'']))) =
        '' WHERE n.group_id = $group_id''
   \<and> (\<forall>g. Some [''a'', ''b''] \<noteq> Some [g])
   \<and> index_scope_clause NodeKind (fst (split_group_ids (Some [''a'', ''b'']))) = []"
  using fixed_clause_order [where gids = "Some [''tenantA'']" and g = "''tenantA''"
      and k = NodeKind, THEN conjunct2, THEN conjunct2, THEN conjunct2, THEN conjunct1]
    fixed_clause_order [where gids = "Some [''a'', ''b'']" and k = NodeKind,
      THEN conjunct2, THEN conjunct2, THEN conjunct2, THEN conjunct2, THEN conjunct1]
  by simp

subsection \<open>Repeated calls on the object store\<close>

lemma get_list_fresh [simp]: "get_list (h @ ListObj xs # rest) (length h) = xs"
  by (simp add: get_list_def)

lemma get_dict_fresh [simp]: "get_dict (h @ ob # DictObj m # rest) (Suc (length h)) = m"
  by (simp add: get_dict_def nth_append)

lemma list_append_fresh [simp]:
  "list_append (length h) x (h @ ListObj xs # rest) = h @ ListObj (xs @ [x]) # rest"
  by (simp add: list_append_def)

lemma dict_store_fresh [simp]:
  "dict_store (Suc (length h)) k v (h @ ob # DictObj m # rest) = h @ ob # DictObj (m(k \<mapsto> v)) # rest"
  by (simp add: dict_store_def list_update_append)

lemma call_constructor_eq:
  "call_constructor c sf p h =
     ((length h, Suc (length h)), h @ [ListObj (fst (c sf p)), DictObj (snd (c sf p))])"
  by (simp add: call_constructor_def new_obj_def split: prod.splits)

lemma node_st_eq:
  "\<exists>objs. build_node_vector_search_query_st env sf gids h =
     ((fst (build_node_vector_search_query env sf gids), length h + length objs),
      h @ objs @ [DictObj (snd (build_node_vector_search_query env sf gids))])"
proof -
  obtain sg pg where sp: "split_group_ids gids = (sg, pg)"
    by (cases "split_group_ids gids")
  obtain fq fp where c: "node_search_filter_query_constructor env sf NEO4J = (fq, fp)"
    by (cases "node_search_filter_query_constructor env sf NEO4J")
  have "\<exists>fq' fp'. build_node_vector_search_query_st env sf gids h =
     ((fst (build_node_vector_search_query env sf gids), length h + length [ListObj fq', DictObj fp']),
      h @ [ListObj fq', DictObj fp']
        @ [DictObj (snd (build_node_vector_search_query env sf gids))])"
    by (cases sg; cases pg)
       (simp_all add: build_node_vector_search_query_st_def build_node_vector_search_query_def
          call_constructor_eq new_obj_def sp c)
  then show ?thesis by blast
qed

lemma community_st_eq:
  "\<exists>objs. build_community_vector_search_query_st env gids h =
     ((fst (build_community_vector_search_query env gids), length h + length objs),
      h @ objs @ [DictObj (snd (build_community_vector_search_query env gids))])"
proof -
  obtain sg pg where sp: "split_group_ids gids = (sg, pg)"
    by (cases "split_group_ids gids")
  show ?thesis
    by (rule exI [of _ "[]"]; cases sg; cases pg)
       (simp_all add: build_community_vector_search_query_st_def
          build_community_vector_search_query_def new_obj_def sp)
qed

lemma edge_st_eq:
  "\<exists>objs. build_edge_vector_search_query_st env sf gids src tgt h =
     ((fst (build_edge_vector_search_query env sf gids src tgt), length h + length objs),
      h @ objs @ [DictObj (snd (build_edge_vector_search_query env sf gids src tgt))])"
proof -
  obtain fq fp where c: "edge_search_filter_query_constructor env sf NEO4J = (fq, fp)"
    by (cases "edge_search_filter_query_constructor env sf NEO4J")
  note defs = build_edge_vector_search_query_st_def build_edge_vector_search_query_def
    call_constructor_eq new_obj_def c
  consider "gids = None" | "gids = Some []" | g where "gids = Some [g]"
    | gs where "gids = Some gs" "2 \<le> length gs"
    by (cases gids; cases "the gids"; cases "tl (the gids)") auto
  then have "\<exists>fq' fp'. build_edge_vector_search_query_st env sf gids src tgt h =
     ((fst (build_edge_vector_search_query env sf gids src tgt),
       length h + length [ListObj fq', DictObj fp']),
      h @ [ListObj fq', DictObj fp']
        @ [DictObj (snd (build_edge_vector_search_query env sf gids src tgt))])"
  proof cases
    case 1
    show ?thesis
      by (cases src; cases tgt) (simp_all add: 1 split_group_ids_None defs)
  next
    case 2
    show ?thesis
      by (cases src; cases tgt) (simp_all add: 2 split_group_ids_Nil defs)
  next
    case 3
    show ?thesis
      by (cases src; cases tgt) (simp_all add: 3 split_group_ids_single defs)
  next
    case 4
    show ?thesis
      by (cases src; cases tgt) (simp_all add: 4 split_group_ids_many defs)
  qed
  then show ?thesis by blast
qed

lemma twice_on_store:
  assumes f: "\<And>h. \<exists>objs. f h = ((q, length h + length objs), h @ objs @ [DictObj m])"
  shows "case f h of ((q1, p1), h1) \<Rightarrow>
           case f h1 of ((q2, p2), h2) \<Rightarrow>
             q2 = q1 \<and> get_dict h2 p2 = get_dict h1 p1 \<and> get_dict h2 p1 = get_dict h1 p1
             \<and> (q1, get_dict h1 p1) = (q, m) \<and> take (length h) h2 = h"
proof -
  obtain o1 where r1: "f h = ((q, length h + length o1), h @ o1 @ [DictObj m])"
    using f by blast
  let ?h1 = "h @ o1 @ [DictObj m]"
  obtain o2 where r2: "f ?h1 = ((q, length ?h1 + length o2), ?h1 @ o2 @ [DictObj m])"
    using f by blast
  have a: "get_dict ?h1 (length h + length o1) = m"
    by (simp add: get_dict_def nth_append)
  have b: "get_dict (?h1 @ o2 @ [DictObj m]) (length ?h1 + length o2) = m"
    by (simp add: get_dict_def nth_append)
  have c: "get_dict (?h1 @ o2 @ [DictObj m]) (length h + length o1) = m"
    by (simp add: get_dict_def nth_append)
  show ?thesis
    using a b c by (simp add: r1 r2)
qed

text \<open>
  Claim C8. Two calls of an assembler in a row with the same arguments, the second on
  the store the first one left, return the same text and dictionaries with equal
  content; the second call leaves the dictionary returned by the first as it was, and
  neither call changes an object that was in the store before. The text and the content
  are those of the assembler as a function of its arguments.
\<close>

theorem assemblers_idempotent:
  "(case build_node_vector_search_query_st env sf gids h of ((q1, p1), h1) \<Rightarrow>
      case build_node_vector_search_query_st env sf gids h1 of ((q2, p2), h2) \<Rightarrow>
        q2 = q1 \<and> get_dict h2 p2 = get_dict h1 p1 \<and> get_dict h2 p1 = get_dict h1 p1
        \<and> (q1, get_dict h1 p1) = build_node_vector_search_query env sf gids
        \<and> take (length h) h2 = h)
   \<and> (case build_community_vector_search_query_st env gids h of ((q1, p1), h1) \<Rightarrow>
      case build_community_vector_search_query_st env gids h1 of ((q2, p2), h2) \<Rightarrow>
        q2 = q1 \<and> get_dict h2 p2 = get_dict h1 p1 \<and> get_dict h2 p1 = get_dict h1 p1
        \<and> (q1, get_dict h1 p1) = build_community_vector_search_query env gids
        \<and> take (length h) h2 = h)
   \<and> (case build_edge_vector_search_query_st env sf gids src tgt h of ((q1, p1), h1) \<Rightarrow>
      case build_edge_vector_search_query_st env sf gids src tgt h1 of ((q2, p2), h2) \<Rightarrow>
        q2 = q1 \<and> get_dict h2 p2 = get_dict h1 p1 \<and> get_dict h2 p1 = get_dict h1 p1
        \<and> (q1, get_dict h1 p1) = build_edge_vector_search_query env sf gids src tgt
        \<and> take (length h) h2 = h)"
proof (intro conjI)
  show "case build_node_vector_search_query_st env sf gids h of ((q1, p1), h1) \<Rightarrow>
      case build_node_vector_search_query_st env sf gids h1 of ((q2, p2), h2) \<Rightarrow>
        q2 = q1 \<and> get_dict h2 p2 = get_dict h1 p1 \<and> get_dict h2 p1 = get_dict h1 p1
        \<and> (q1, get_dict h1 p1) = build_node_vector_search_query env sf gids
        \<and> take (length h) h2 = h"
    using twice_on_store [of "build_node_vector_search_query_st env sf gids"
        "fst (build_node_vector_search_query env sf gids)"
        "snd (build_node_vector_search_query env sf gids)" h, OF node_st_eq]
    by (simp only: prod.collapse)
  show "case build_community_vector_search_query_st env gids h of ((q1, p1), h1) \<Rightarrow>
      case build_community_vector_search_query_st env gids h1 of ((q2, p2), h2) \<Rightarrow>
        q2 = q1 \<and> get_dict h2 p2 = get_dict h1 p1 \<and> get_dict h2 p1 = get_dict h1 p1
        \<and> (q1, get_dict h1 p1) = build_community_vector_search_query env gids
        \<and> take (length h) h2 = h"
    using twice_on_store [of "build_community_vector_search_query_st env gids"
        "fst (build_community_vector_search_query env gids)"
        "snd (build_community_vector_search_query env gids)" h, OF community_st_eq]
    by (simp only: prod.collapse)
  show "case build_edge_vector_search_query_st env sf gids src tgt h of ((q1, p1), h1) \<Rightarrow>
      case build_edge_vector_search_query_st env sf gids src tgt h1 of ((q2, p2), h2) \<Rightarrow>
        q2 = q1 \<and> get_dict h2 p2 = get_dict h1 p1 \<and> get_dict h2 p1 = get_dict h1 p1
        \<and> (q1, get_dict h1 p1) = build_edge_vector_search_query env sf gids src tgt
        \<and> take (length h) h2 = h"
    using twice_on_store [of "build_edge_vector_search_query_st env sf gids src tgt"
        "fst (build_edge_vector_search_query env sf gids src tgt)"
        "snd (build_edge_vector_search_query env sf gids src tgt)" h, OF edge_st_eq]
    by (simp only: prod.collapse)
qed

lemma example_store_run:
  "snd (build_edge_vector_search_query_st example_env (Some ''Ada'') (Some []) (Some ''x'') None []) =
     [ListObj [''e.name = $name'', ''e.group_id IN $group_ids'', ''n.uuid = $source_uuid''],
      DictObj [''name'' \<mapsto> PAny ''Ada'', ''group_ids'' \<mapsto> PStrList [],
               ''source_uuid'' \<mapsto> PStr ''x''],
      DictObj [''name'' \<mapsto> PAny ''Ada'', ''group_ids'' \<mapsto> PStrList [],
               ''source_uuid'' \<mapsto> PStr ''x'']]"
  by (simp add: build_edge_vector_search_query_st_def split_group_ids_Nil call_constructor_def
      new_obj_def example_env_simps example_filter_constructor_def list_append_def
      dict_store_def get_list_def get_dict_def)

end
